theory Spec2Isabelle
  imports Complex_Main
begin

section \<open>The tensor runtime used by \<^verbatim>\<open>transforms.py\<close>\<close>

text \<open>
  \<^verbatim>\<open>transforms.py\<close> is written against TensorFlow. A dense tensor is a shape and a
  row-major buffer of elements. \<^verbatim>\<open>float32\<close> elements are modelled as \<open>real\<close> (exact
  arithmetic, no rounding, no infinities), integer elements as \<open>int\<close>. Every library call
  that can raise returns \<open>error + result\<close>, with \<open>Inl\<close> the exception.
\<close>

datatype error = AssertionError | TypeError | IndexError | InvalidArgumentError

record 'a tensor =
  shape :: "nat list"
  data :: "'a list"

text \<open>A tensor value of the runtime holds exactly as many elements as its shape says.\<close>

definition well_shaped :: "'a tensor \<Rightarrow> bool" where
  "well_shaped t = (length (data t) = prod_list (shape t))"

text \<open>The two element types the transforms meet: integer labels and floating-point data.\<close>

datatype tf_tensor = IntTensor "int tensor" | FloatTensor "real tensor"

fun shape_of :: "tf_tensor \<Rightarrow> nat list" where
  "shape_of (IntTensor t) = shape t"
| "shape_of (FloatTensor t) = shape t"

fun well_shaped_tf :: "tf_tensor \<Rightarrow> bool" where
  "well_shaped_tf (IntTensor t) = well_shaped t"
| "well_shaped_tf (FloatTensor t) = well_shaped t"

text \<open>\<^verbatim>\<open>tf.cast(t, tf.float32)\<close>.\<close>

fun tf_cast_float32 :: "tf_tensor \<Rightarrow> real tensor" where
  "tf_cast_float32 (IntTensor t) = \<lparr>shape = shape t, data = map real_of_int (data t)\<rparr>"
| "tf_cast_float32 (FloatTensor t) = t"

text \<open>\<^verbatim>\<open>tf.constant(v)\<close> of a Python scalar, also the implicit conversion of a Python
  scalar operand: a tensor of rank 0.\<close>

definition tf_constant :: "'a \<Rightarrow> 'a tensor" where
  "tf_constant v = \<lparr>shape = [], data = [v]\<rparr>"

subsection \<open>Multi-indices and row-major offsets\<close>

text \<open>All multi-indices of a shape, in row-major order.\<close>

fun indices :: "nat list \<Rightarrow> nat list list" where
  "indices [] = [[]]"
| "indices (d # ds) = concat (map (\<lambda>i. map ((#) i) (indices ds)) [0..<d])"

text \<open>The position of a multi-index in the row-major buffer.\<close>

fun offset :: "nat list \<Rightarrow> nat list \<Rightarrow> nat" where
  "offset (d # ds) (i # js) = i * prod_list ds + offset ds js"
| "offset _ _ = 0"

definition valid_index :: "nat list \<Rightarrow> nat list \<Rightarrow> bool" where
  "valid_index s idx = list_all2 (<) idx s"

text \<open>The element of a tensor at a multi-index.\<close>

definition elem :: "'a tensor \<Rightarrow> nat list \<Rightarrow> 'a" where
  "elem t idx = data t ! offset (shape t) idx"

subsection \<open>Broadcasting elementwise operations\<close>

text \<open>
  Shapes are aligned at their last dimension; two dimensions are compatible when they are
  equal or one of them is 1. \<open>broadcast_rev\<close> works on the reversed shapes.
\<close>

fun broadcast_rev :: "nat list \<Rightarrow> nat list \<Rightarrow> nat list option" where
  "broadcast_rev [] ys = Some ys"
| "broadcast_rev (x # xs) [] = Some (x # xs)"
| "broadcast_rev (x # xs) (y # ys) =
     (case broadcast_rev xs ys of
        None \<Rightarrow> None
      | Some zs \<Rightarrow>
          if x = y then Some (x # zs)
          else if x = 1 then Some (y # zs)
          else if y = 1 then Some (x # zs)
          else None)"

definition broadcast_shape :: "nat list \<Rightarrow> nat list \<Rightarrow> nat list option" where
  "broadcast_shape a b = map_option rev (broadcast_rev (rev a) (rev b))"

text \<open>The multi-index of the operand element that a result multi-index reads: the leading
  dimensions the operand lacks are dropped, and a dimension of size 1 is read at 0.\<close>

definition source_index :: "nat list \<Rightarrow> nat list \<Rightarrow> nat list" where
  "source_index s idx =
     map2 (\<lambda>d i. if d = 1 then 0 else i) s (drop (length idx - length s) idx)"

definition binary_op :: "('a \<Rightarrow> 'b \<Rightarrow> 'c) \<Rightarrow> 'a tensor \<Rightarrow> 'b tensor \<Rightarrow> error + 'c tensor" where
  "binary_op f a b =
     (case broadcast_shape (shape a) (shape b) of
        None \<Rightarrow> Inl InvalidArgumentError
      | Some s \<Rightarrow>
          Inr \<lparr>shape = s,
               data = map (\<lambda>idx. f (elem a (source_index (shape a) idx))
                                    (elem b (source_index (shape b) idx)))
                          (indices s)\<rparr>)"

text \<open>\<^verbatim>\<open>tf.add\<close>, \<^verbatim>\<open>tf.subtract\<close>, \<^verbatim>\<open>tf.multiply\<close>, \<^verbatim>\<open>tf.divide\<close> and the Python
  operators \<^verbatim>\<open>+ - * /\<close> on tensors.\<close>

definition tf_add :: "'a::plus tensor \<Rightarrow> 'a tensor \<Rightarrow> error + 'a tensor" where
  "tf_add = binary_op (+)"

definition tf_subtract :: "'a::minus tensor \<Rightarrow> 'a tensor \<Rightarrow> error + 'a tensor" where
  "tf_subtract = binary_op (-)"

definition tf_multiply :: "'a::times tensor \<Rightarrow> 'a tensor \<Rightarrow> error + 'a tensor" where
  "tf_multiply = binary_op (*)"

definition tf_divide :: "real tensor \<Rightarrow> real tensor \<Rightarrow> error + real tensor" where
  "tf_divide = binary_op (/)"

subsection \<open>One-hot encoding, reshaping, gathering, shuffling, matrix product\<close>

text \<open>
  \<^verbatim>\<open>tf.one_hot(indices, depth)\<close> with the default on and off values 1 and 0 and the
  default \<^verbatim>\<open>float32\<close> result: a new last axis of size \<open>depth\<close>; an index outside
  \<open>[0, depth)\<close> gives a row of zeros; a negative depth is rejected when the call runs.
\<close>

definition tf_one_hot :: "int tensor \<Rightarrow> int \<Rightarrow> error + real tensor" where
  "tf_one_hot ix depth =
     (if depth < 0 then Inl InvalidArgumentError
      else Inr \<lparr>shape = shape ix @ [nat depth],
                data = concat (map (\<lambda>i. map (\<lambda>j. if int j = i then 1 else 0) [0..<nat depth])
                                   (data ix))\<rparr>)"

text \<open>\<^verbatim>\<open>tf.expand_dims(t, -1)\<close>.\<close>

definition tf_expand_dims_last :: "'a tensor \<Rightarrow> 'a tensor" where
  "tf_expand_dims_last t = \<lparr>shape = shape t @ [1], data = data t\<rparr>"

text \<open>\<^verbatim>\<open>tf.range(n)\<close>.\<close>

definition tf_range :: "nat \<Rightarrow> int tensor" where
  "tf_range n = \<lparr>shape = [n], data = map int [0..<n]\<rparr>"

text \<open>\<^verbatim>\<open>tf.gather(params, indices, axis=0)\<close>: the slices of \<open>params\<close> along its first
  axis, picked by \<open>indices\<close>. A scalar \<open>params\<close> and an index out of range are rejected.\<close>

definition tf_gather :: "'a tensor \<Rightarrow> int tensor \<Rightarrow> error + 'a tensor" where
  "tf_gather params ix =
     (case shape params of
        [] \<Rightarrow> Inl InvalidArgumentError
      | n # ds \<Rightarrow>
          if list_all (\<lambda>i. 0 \<le> i \<and> i < int n) (data ix)
          then Inr \<lparr>shape = shape ix @ ds,
                    data = concat (map (\<lambda>i. take (prod_list ds)
                                                (drop (nat i * prod_list ds) (data params)))
                                       (data ix))\<rparr>
          else Inl InvalidArgumentError)"

text \<open>
  \<^verbatim>\<open>tf.random.shuffle(value)\<close> reorders the slices of \<open>value\<close> along its first axis. The
  outcome of the random draw is the list \<open>sigma\<close>: slice \<open>i\<close> of the result is slice
  \<open>sigma ! i\<close> of \<open>value\<close>. The runtime draws a permutation of \<open>[0, n)\<close>. A scalar
  has nothing to reorder and is returned as it is.
\<close>

definition tf_random_shuffle :: "nat list \<Rightarrow> 'a tensor \<Rightarrow> error + 'a tensor" where
  "tf_random_shuffle sigma v =
     (case shape v of
        [] \<Rightarrow> Inr v
      | n # ds \<Rightarrow> tf_gather v \<lparr>shape = [length sigma], data = map int sigma\<rparr>)"

text \<open>
  \<^verbatim>\<open>tf.linalg.matmul(a, b)\<close> on \<^verbatim>\<open>float32\<close> tensors: both operands have rank at least 2,
  the inner dimensions agree, the leading (batch) dimensions broadcast.
\<close>

definition tf_matmul :: "real tensor \<Rightarrow> real tensor \<Rightarrow> error + real tensor" where
  "tf_matmul a b =
     (if length (shape a) < 2 \<or> length (shape b) < 2 then Inl InvalidArgumentError
      else
        let ba = butlast (butlast (shape a)); m = last (butlast (shape a)); k = last (shape a);
            bb = butlast (butlast (shape b)); k' = last (butlast (shape b)); n = last (shape b)
        in if k \<noteq> k' then Inl InvalidArgumentError
           else case broadcast_shape ba bb of
                  None \<Rightarrow> Inl InvalidArgumentError
                | Some bs \<Rightarrow>
                    Inr \<lparr>shape = bs @ [m, n],
                         data = map (\<lambda>idx.
                                   let bi = take (length bs) idx;
                                       i = idx ! length bs;
                                       j = idx ! Suc (length bs)
                                   in sum_list (map (\<lambda>l. elem a (source_index ba bi @ [i, l]) *
                                                          elem b (source_index bb bi @ [l, j]))
                                                    [0..<k]))
                                  (indices (bs @ [m, n]))\<rparr>)"

text \<open>
  \<^verbatim>\<open>tf.cond(pred, true_fn, false_fn)\<close> takes two callables and calls the one that
  \<open>pred\<close> selects. An argument that is not callable is refused with \<^verbatim>\<open>TypeError\<close>
  (\<^verbatim>\<open>true_fn must be callable.\<close>), whatever \<open>pred\<close> is. A Python object handed over as a
  branch is either a callable or a plain value such as a tensor.
\<close>

datatype 'a branch = Callable "unit \<Rightarrow> error + 'a" | Value 'a

fun tf_cond :: "bool \<Rightarrow> 'a branch \<Rightarrow> 'a branch \<Rightarrow> error + 'a" where
  "tf_cond pred (Callable true_fn) (Callable false_fn) = (if pred then true_fn () else false_fn ())"
| "tf_cond pred _ _ = Inl TypeError"

section \<open>The transforms\<close>

text \<open>
  A call \<^verbatim>\<open>transform(x, label, *args)\<close> takes the input \<open>x\<close>, the label and the list of
  extra positional arguments; the returned Python tuple \<^verbatim>\<open>(a, b, *rest)\<close> is the triple
  \<open>(a, b, rest)\<close>, a tuple \<^verbatim>\<open>(a, b)\<close> of two elements has the empty \<open>rest\<close>. Keyword
  arguments are never read by any transform.
\<close>

type_synonym ('x, 'l, 'e) sample = "'x \<times> 'l \<times> 'e list"

text \<open>\<^verbatim>\<open>len\<close> of the tuple.\<close>

fun arity :: "('x, 'l, 'e) sample \<Rightarrow> nat" where
  "arity (x, label, extra) = 2 + length extra"

subsection \<open>OneHotLabels\<close>

record OneHotLabels =
  self_max_classes :: int

definition OneHotLabels_init :: "int \<Rightarrow> error + OneHotLabels" where
  "OneHotLabels_init max_classes = Inr \<lparr>self_max_classes = max_classes\<rparr>"

definition OneHotLabels_call ::
  "OneHotLabels \<Rightarrow> 'x \<Rightarrow> int tensor \<Rightarrow> 'e list \<Rightarrow> error + ('x, real tensor, 'e) sample" where
  "OneHotLabels_call self x label args =
     (case tf_one_hot label (self_max_classes self) of
        Inl e \<Rightarrow> Inl e
      | Inr v \<Rightarrow> Inr (x, v, args))"

subsection \<open>ChannelShuffle\<close>

text \<open>
  \<open>self.p\<close> is stored as a \<^verbatim>\<open>float16\<close> constant; \<open>to_float16\<close> is the rounding of the
  runtime. \<open>u\<close> is the outcome of \<^verbatim>\<open>tf.random.uniform\<close> and \<open>sigma\<close> the outcome of
  \<^verbatim>\<open>tf.random.shuffle\<close>. Python evaluates the three arguments of \<^verbatim>\<open>tf.cond\<close> before the
  call: the comparison, the shuffled tensor and \<open>x\<close> itself reach \<^verbatim>\<open>tf.cond\<close> as values.
\<close>

record ChannelShuffle =
  self_p :: real

definition ChannelShuffle_init :: "(real \<Rightarrow> real) \<Rightarrow> real \<Rightarrow> error + ChannelShuffle" where
  "ChannelShuffle_init to_float16 p =
     (if 0 \<le> p \<and> p \<le> 1 then Inr \<lparr>self_p = to_float16 p\<rparr> else Inl AssertionError)"

definition ChannelShuffle_call ::
  "ChannelShuffle \<Rightarrow> real \<Rightarrow> nat list \<Rightarrow> 'a tensor \<Rightarrow> 'l \<Rightarrow> 'e list
     \<Rightarrow> error + ('a tensor, 'l, 'e) sample" where
  "ChannelShuffle_call self u sigma x label args =
     (let pred = (u < self_p self) in
      case tf_random_shuffle sigma x of
        Inl e \<Rightarrow> Inl e
      | Inr shuffled \<Rightarrow>
          (case tf_cond pred (Value shuffled) (Value x) of
             Inl e \<Rightarrow> Inl e
           | Inr x' \<Rightarrow> Inr (x', label, args)))"

subsection \<open>LabelSmoothing\<close>

record LabelSmoothing =
  self_targets :: int
  self_gamma :: real

definition LabelSmoothing_init :: "int \<Rightarrow> real \<Rightarrow> error + LabelSmoothing" where
  "LabelSmoothing_init targets gamma = Inr \<lparr>self_targets = targets, self_gamma = gamma\<rparr>"

text \<open>
  Line 47 is evaluated inside out:
  \<^verbatim>\<open>tf.subtract(label, gamma * (label - 1 / (tf.cast(targets, tf.float32) + 1)))\<close>.
  The division is reached only after \<^verbatim>\<open>tf.one_hot\<close> has accepted \<open>targets\<close>, so its
  denominator is at least 1.
\<close>

definition LabelSmoothing_call ::
  "LabelSmoothing \<Rightarrow> 'x \<Rightarrow> int tensor \<Rightarrow> 'e list \<Rightarrow> error + ('x, real tensor, 'e) sample" where
  "LabelSmoothing_call self x label args =
     (case tf_one_hot label (self_targets self) of
        Inl e \<Rightarrow> Inl e
      | Inr label1 \<Rightarrow>
     (case tf_add (tf_cast_float32 (IntTensor (tf_constant (self_targets self)))) (tf_constant 1) of
        Inl e \<Rightarrow> Inl e
      | Inr denom \<Rightarrow>
     (case tf_divide (tf_constant 1) denom of
        Inl e \<Rightarrow> Inl e
      | Inr floor_level \<Rightarrow>
     (case tf_subtract label1 floor_level of
        Inl e \<Rightarrow> Inl e
      | Inr diff \<Rightarrow>
     (case tf_multiply (tf_constant (self_gamma self)) diff of
        Inl e \<Rightarrow> Inl e
      | Inr scaled \<Rightarrow>
     (case tf_subtract label1 scaled of
        Inl e \<Rightarrow> Inl e
      | Inr label2 \<Rightarrow> Inr (x, label2, args)))))))"

subsection \<open>Mixup\<close>

text \<open>
  \<open>draws\<close> is the outcome of the Beta sampler (\<open>draws i\<close> the coefficient drawn for
  example \<open>i\<close>), \<open>sigma\<close> the outcome of \<^verbatim>\<open>tf.random.shuffle\<close>. The two \<^verbatim>\<open>print\<close> calls
  only write to the console.
\<close>

record Mixup =
  self_rate :: real

definition Mixup_init :: "real \<Rightarrow> error + Mixup" where
  "Mixup_init rate = Inr \<lparr>self_rate = rate\<rparr>"

text \<open>\<^verbatim>\<open>self.beta_sampler.sample(batch_size)\<close>.\<close>

definition beta_sample :: "(nat \<Rightarrow> real) \<Rightarrow> nat \<Rightarrow> real tensor" where
  "beta_sample draws n = \<lparr>shape = [n], data = map draws [0..<n]\<rparr>"

text \<open>The inner loop \<^verbatim>\<open>for _ in range(len(arg.shape)-1)\<close>.\<close>

fun expand_lam :: "nat \<Rightarrow> real tensor \<Rightarrow> real tensor" where
  "expand_lam 0 lam_exp = lam_exp"
| "expand_lam (Suc k) lam_exp = expand_lam k (tf_expand_dims_last lam_exp)"

text \<open>The body of the outer loop, for one element of \<open>args\<close>.\<close>

definition mix_arg :: "real tensor \<Rightarrow> int tensor \<Rightarrow> tf_tensor \<Rightarrow> error + real tensor" where
  "mix_arg lam_mu permutation arg0 =
     (let arg = tf_cast_float32 arg0;
          lam_exp = expand_lam (length (shape arg) - 1) lam_mu
      in case tf_multiply lam_exp arg of
           Inl e \<Rightarrow> Inl e
         | Inr kept \<Rightarrow>
        (case tf_subtract (tf_constant 1) lam_exp of
           Inl e \<Rightarrow> Inl e
         | Inr rest \<Rightarrow>
        (case tf_gather arg permutation of
           Inl e \<Rightarrow> Inl e
         | Inr partner \<Rightarrow>
        (case tf_multiply rest partner of
           Inl e \<Rightarrow> Inl e
         | Inr mixed \<Rightarrow> tf_add kept mixed))))"

text \<open>The outer loop \<^verbatim>\<open>for i, arg in enumerate(args)\<close>, which replaces every element.\<close>

fun mix_loop :: "real tensor \<Rightarrow> int tensor \<Rightarrow> tf_tensor list \<Rightarrow> error + real tensor list" where
  "mix_loop lam_mu permutation [] = Inr []"
| "mix_loop lam_mu permutation (arg # rest) =
     (case mix_arg lam_mu permutation arg of
        Inl e \<Rightarrow> Inl e
      | Inr m \<Rightarrow>
          (case mix_loop lam_mu permutation rest of
             Inl e \<Rightarrow> Inl e
           | Inr ms \<Rightarrow> Inr (m # ms)))"

definition Mixup_call ::
  "Mixup \<Rightarrow> (nat \<Rightarrow> real) \<Rightarrow> nat list \<Rightarrow> tf_tensor list \<Rightarrow> error + real tensor list" where
  "Mixup_call self draws sigma args =
     (case args of
        [] \<Rightarrow> Inl IndexError
      | first # _ \<Rightarrow>
          (case shape_of first of
             [] \<Rightarrow> Inl IndexError
           | batch_size # _ \<Rightarrow>
               (let lam_mu = beta_sample draws batch_size in
                case tf_random_shuffle sigma (tf_range batch_size) of
                  Inl e \<Rightarrow> Inl e
                | Inr permutation \<Rightarrow> mix_loop lam_mu permutation args)))"

subsection \<open>DummyTransform, ICATransform, EATransform\<close>

text \<open>
  All three return a tuple of two elements: \<^verbatim>\<open>*args\<close> is accepted and not returned.
  The input of the two matrix transforms is a \<^verbatim>\<open>float32\<close> tensor, the element type of the
  cast matrix; \<^verbatim>\<open>tf.linalg.matmul\<close> takes no other.
\<close>

definition DummyTransform_call ::
  "'a::{times,numeral} tensor \<Rightarrow> 'l \<Rightarrow> 'e list \<Rightarrow> error + ('a tensor, 'l, 'e) sample" where
  "DummyTransform_call x label args =
     (case tf_multiply x (tf_constant 2) of
        Inl e \<Rightarrow> Inl e
      | Inr y \<Rightarrow> Inr (y, label, []))"

record ICATransform =
  self_input :: tf_tensor

definition ICATransform_init :: "tf_tensor \<Rightarrow> error + ICATransform" where
  "ICATransform_init inp = Inr \<lparr>self_input = inp\<rparr>"

definition ICATransform_call ::
  "ICATransform \<Rightarrow> real tensor \<Rightarrow> 'l \<Rightarrow> 'e list \<Rightarrow> error + (real tensor, 'l, 'e) sample" where
  "ICATransform_call self x label args =
     (case tf_matmul (tf_cast_float32 (self_input self)) x of
        Inl e \<Rightarrow> Inl e
      | Inr y \<Rightarrow> Inr (y, label, []))"

record EATransform =
  self_ref_matrix :: tf_tensor

definition EATransform_init :: "tf_tensor \<Rightarrow> error + EATransform" where
  "EATransform_init ref_matrix = Inr \<lparr>self_ref_matrix = ref_matrix\<rparr>"

definition EATransform_call ::
  "EATransform \<Rightarrow> real tensor \<Rightarrow> 'l \<Rightarrow> 'e list \<Rightarrow> error + (real tensor, 'l, 'e) sample" where
  "EATransform_call self x label args =
     (case tf_matmul (tf_cast_float32 (self_ref_matrix self)) x of
        Inl e \<Rightarrow> Inl e
      | Inr y \<Rightarrow> Inr (y, label, []))"

section \<open>Row-major enumeration\<close>

lemma length_concat_const:
  "(\<And>x. x \<in> set xs \<Longrightarrow> length (f x) = r) \<Longrightarrow> length (concat (map f xs)) = length xs * r"
  by (induction xs) auto

lemma length_indices: "length (indices s) = prod_list s"
  by (induction s) (simp_all add: length_concat_const)

lemma map_shift_upt: "map (\<lambda>k. c + k) [0..<n] = [c..<c + n]"
  by (induction n) simp_all

lemma concat_blocks_upt:
  "concat (map (\<lambda>i. map (\<lambda>k. i * r + k) [0..<r]) [0..<d]) = [0..<d * r]"
proof (induction d)
  case 0
  show ?case by simp
next
  case (Suc d)
  have split: "[0..<d * r + r] = [0..<d * r] @ [d * r..<d * r + r]"
    by (rule upt_add_eq_append) simp
  have "concat (map (\<lambda>i. map (\<lambda>k. i * r + k) [0..<r]) [0..<Suc d]) =
        concat (map (\<lambda>i. map (\<lambda>k. i * r + k) [0..<r]) [0..<d]) @ map (\<lambda>k. d * r + k) [0..<r]"
    by simp
  also have "\<dots> = [0..<d * r] @ [d * r..<d * r + r]"
    unfolding Suc.IH by (simp add: map_shift_upt)
  also have "\<dots> = [0..<Suc d * r]"
    by (simp only: split [symmetric]) (simp add: add.commute)
  finally show ?case .
qed

lemma map_offset_indices: "map (offset s) (indices s) = [0..<prod_list s]"
proof (induction s)
  case Nil
  show ?case by simp
next
  case (Cons d ds)
  have "map (offset (d # ds)) (indices (d # ds)) =
        concat (map (\<lambda>i. map (\<lambda>k. i * prod_list ds + k) (map (offset ds) (indices ds))) [0..<d])"
    by (simp add: map_concat comp_def)
  then show ?case using Cons by (simp add: concat_blocks_upt)
qed

lemma set_indices: "set (indices s) = {idx. valid_index s idx}"
proof (induction s)
  case Nil
  show ?case by (auto simp: valid_index_def)
next
  case (Cons d ds)
  show ?case
  proof (rule set_eqI)
    fix idx
    show "idx \<in> set (indices (d # ds)) \<longleftrightarrow> idx \<in> {idx. valid_index (d # ds) idx}"
      using Cons by (cases idx) (auto simp: valid_index_def)
  qed
qed

lemma valid_offset:
  assumes "valid_index s idx"
  shows "offset s idx < prod_list s" and "indices s ! offset s idx = idx"
proof -
  from assms have "idx \<in> set (indices s)" by (simp add: set_indices)
  then obtain k where k: "k < length (indices s)" "indices s ! k = idx"
    by (auto simp: in_set_conv_nth)
  have "map (offset s) (indices s) ! k = [0..<prod_list s] ! k"
    by (simp only: map_offset_indices)
  with k have "offset s idx = k" by (simp add: length_indices)
  with k show "offset s idx < prod_list s" and "indices s ! offset s idx = idx"
    by (simp_all add: length_indices)
qed

text \<open>Reading the buffer through the enumeration returns the buffer.\<close>

lemma map_through_offsets:
  "map (\<lambda>idx. g (offset s idx)) (indices s) = map g [0..<prod_list s]"
proof -
  have "map (\<lambda>idx. g (offset s idx)) (indices s) = map g (map (offset s) (indices s))"
    by (simp add: comp_def)
  then show ?thesis by (simp only: map_offset_indices)
qed

lemma map_nth_upt: "n = length xs \<Longrightarrow> map (\<lambda>k. f (xs ! k)) [0..<n] = map f xs"
  by (rule nth_equalityI) simp_all

lemma map2_nth_upt:
  "n = length xs \<Longrightarrow> n = length ys \<Longrightarrow> map (\<lambda>k. f (xs ! k) (ys ! k)) [0..<n] = map2 f xs ys"
  by (rule nth_equalityI) simp_all

section \<open>Facts about broadcasting\<close>

lemma broadcast_rev_Nil2: "broadcast_rev xs [] = Some xs"
  by (cases xs) simp_all

lemma broadcast_rev_same: "broadcast_rev xs xs = Some xs"
  by (induction xs) simp_all

lemma broadcast_shape_scalar_right: "broadcast_shape s [] = Some s"
  by (simp add: broadcast_shape_def broadcast_rev_Nil2)

lemma broadcast_shape_scalar_left: "broadcast_shape [] s = Some s"
  by (simp add: broadcast_shape_def)

lemma broadcast_shape_same: "broadcast_shape s s = Some s"
  by (simp add: broadcast_shape_def broadcast_rev_same)

lemma source_index_scalar: "source_index [] idx = []"
  by (simp add: source_index_def)

lemma source_index_same: "valid_index s idx \<Longrightarrow> source_index s idx = idx"
proof -
  assume v: "valid_index s idx"
  then have len: "length idx = length s"
    by (simp add: valid_index_def list_all2_lengthD)
  have "map2 (\<lambda>d i. if d = 1 then 0 else i) s idx = idx"
  proof (rule nth_equalityI)
    show "length (map2 (\<lambda>d i. if d = 1 then 0 else i) s idx) = length idx"
      using len by simp
  next
    fix k assume "k < length (map2 (\<lambda>d i. if d = 1 then 0 else i) s idx)"
    then have k: "k < length idx" using len by simp
    with v have "idx ! k < s ! k"
      by (simp add: valid_index_def list_all2_nthD)
    then show "map2 (\<lambda>d i. if d = 1 then 0 else i) s idx ! k = idx ! k"
      using k len by auto
  qed
  then show ?thesis using len by (simp add: source_index_def)
qed

lemma elem_binary_op:
  assumes "binary_op f a b = Inr c" and "valid_index (shape c) idx"
  shows "elem c idx = f (elem a (source_index (shape a) idx)) (elem b (source_index (shape b) idx))"
proof -
  from assms(1) obtain s where s: "broadcast_shape (shape a) (shape b) = Some s"
    and c: "c = \<lparr>shape = s,
                 data = map (\<lambda>idx. f (elem a (source_index (shape a) idx))
                                      (elem b (source_index (shape b) idx))) (indices s)\<rparr>"
    by (auto simp: binary_op_def split: option.splits)
  from assms(2) c have v: "valid_index s idx" by simp
  have "offset s idx < length (indices s)" "indices s ! offset s idx = idx"
    using valid_offset [OF v] by (simp_all add: length_indices)
  then show ?thesis by (simp add: c elem_def)
qed

lemma binary_op_scalar_right:
  assumes "well_shaped a"
  shows "binary_op f a (tf_constant v) = Inr \<lparr>shape = shape a, data = map (\<lambda>x. f x v) (data a)\<rparr>"
proof -
  have "map (\<lambda>idx. f (elem a (source_index (shape a) idx)) v) (indices (shape a)) =
        map (\<lambda>idx. f (data a ! offset (shape a) idx) v) (indices (shape a))"
    by (rule map_cong) (simp_all add: set_indices source_index_same elem_def)
  also have "\<dots> = map (\<lambda>k. f (data a ! k) v) [0..<prod_list (shape a)]"
    by (rule map_through_offsets)
  also have "\<dots> = map (\<lambda>x. f x v) (data a)"
    using assms by (intro map_nth_upt) (simp add: well_shaped_def)
  finally show ?thesis
    by (simp add: binary_op_def tf_constant_def broadcast_shape_scalar_right
        source_index_scalar elem_def)
qed

lemma binary_op_scalar_left:
  assumes "well_shaped b"
  shows "binary_op f (tf_constant v) b = Inr \<lparr>shape = shape b, data = map (f v) (data b)\<rparr>"
proof -
  have "map (\<lambda>idx. f v (elem b (source_index (shape b) idx))) (indices (shape b)) =
        map (\<lambda>idx. f v (data b ! offset (shape b) idx)) (indices (shape b))"
    by (rule map_cong) (simp_all add: set_indices source_index_same elem_def)
  also have "\<dots> = map (\<lambda>k. f v (data b ! k)) [0..<prod_list (shape b)]"
    by (rule map_through_offsets)
  also have "\<dots> = map (f v) (data b)"
    using assms by (intro map_nth_upt) (simp add: well_shaped_def)
  finally show ?thesis
    by (simp add: binary_op_def tf_constant_def broadcast_shape_scalar_left
        source_index_scalar elem_def)
qed

lemma binary_op_same_shape:
  assumes "well_shaped a" and "well_shaped b" and "shape a = shape b"
  shows "binary_op f a b = Inr \<lparr>shape = shape a, data = map2 f (data a) (data b)\<rparr>"
proof -
  have "map (\<lambda>idx. f (elem a (source_index (shape a) idx)) (elem b (source_index (shape b) idx)))
            (indices (shape a)) =
        map (\<lambda>idx. f (data a ! offset (shape a) idx) (data b ! offset (shape a) idx))
            (indices (shape a))"
    using assms(3) by (intro map_cong) (simp_all add: set_indices source_index_same elem_def)
  also have "\<dots> = map (\<lambda>k. f (data a ! k) (data b ! k)) [0..<prod_list (shape a)]"
    by (rule map_through_offsets)
  also have "\<dots> = map2 f (data a) (data b)"
    using assms by (intro map2_nth_upt) (simp_all add: well_shaped_def)
  finally show ?thesis
    using assms(3) by (simp add: binary_op_def broadcast_shape_same)
qed

section \<open>One-hot rows and the smoothing arithmetic\<close>

lemma tf_one_hot_scalar:
  "0 \<le> depth \<Longrightarrow>
   tf_one_hot (tf_constant l) depth =
     Inr \<lparr>shape = [nat depth], data = map (\<lambda>j. if int j = l then 1 else 0) [0..<nat depth]\<rparr>"
  by (simp add: tf_one_hot_def tf_constant_def)

lemma sum_list_one_hot_row:
  "sum_list (map (\<lambda>j. if j = k then 1 else (0::real)) [0..<n]) = (if k < n then 1 else 0)"
  by (induction n) auto

lemma one_hot_row_nat:
  "0 \<le> l \<Longrightarrow> map (\<lambda>j. if int j = l then 1 else (0::real)) [0..<n] =
     map (\<lambda>j. if j = nat l then 1 else 0) [0..<n]"
  by (rule map_cong) auto

lemma map2_map_right: "map2 f xs (map g xs) = map (\<lambda>x. f x (g x)) xs"
  by (induction xs) simp_all

lemma sum_list_smoothed:
  "sum_list (map (\<lambda>v. v - g * (v - q)) xs) = (1 - g) * sum_list xs + real (length xs) * (g * q)"
  for g q :: real
  by (induction xs) (simp_all add: algebra_simps)

lemma binary_op_scalars:
  "binary_op f (tf_constant a) (tf_constant b) = Inr (tf_constant (f a b))"
proof -
  have "well_shaped (tf_constant a)" by (simp add: well_shaped_def tf_constant_def)
  from binary_op_scalar_right [OF this, of f b] show ?thesis
    by (simp add: tf_constant_def)
qed

text \<open>The arithmetic of line 47 on a label vector \<open>r\<close> that is already one-hot encoded.\<close>

lemma smoothing_arithmetic:
  fixes r :: "real list" and g q :: real
  shows "tf_subtract \<lparr>shape = [length r], data = r\<rparr> (tf_constant q) =
           Inr \<lparr>shape = [length r], data = map (\<lambda>v. v - q) r\<rparr>"
    and "tf_multiply (tf_constant g) \<lparr>shape = [length r], data = map (\<lambda>v. v - q) r\<rparr> =
           Inr \<lparr>shape = [length r], data = map (\<lambda>v. g * (v - q)) r\<rparr>"
    and "tf_subtract \<lparr>shape = [length r], data = r\<rparr>
                     \<lparr>shape = [length r], data = map (\<lambda>v. g * (v - q)) r\<rparr> =
           Inr \<lparr>shape = [length r], data = map (\<lambda>v. v - g * (v - q)) r\<rparr>"
proof -
  have ws1: "well_shaped \<lparr>shape = [length r], data = r\<rparr>"
    by (simp add: well_shaped_def)
  have ws2: "well_shaped \<lparr>shape = [length r], data = map (\<lambda>v. v - q) r\<rparr>"
    by (simp add: well_shaped_def)
  have ws3: "well_shaped \<lparr>shape = [length r], data = map (\<lambda>v. g * (v - q)) r\<rparr>"
    by (simp add: well_shaped_def)
  show "tf_subtract \<lparr>shape = [length r], data = r\<rparr> (tf_constant q) =
           Inr \<lparr>shape = [length r], data = map (\<lambda>v. v - q) r\<rparr>"
    unfolding tf_subtract_def using binary_op_scalar_right [OF ws1, of "(-)" q] by simp
  show "tf_multiply (tf_constant g) \<lparr>shape = [length r], data = map (\<lambda>v. v - q) r\<rparr> =
           Inr \<lparr>shape = [length r], data = map (\<lambda>v. g * (v - q)) r\<rparr>"
    unfolding tf_multiply_def using binary_op_scalar_left [OF ws2, of "(*)" g]
    by (simp add: comp_def)
  show "tf_subtract \<lparr>shape = [length r], data = r\<rparr>
                     \<lparr>shape = [length r], data = map (\<lambda>v. g * (v - q)) r\<rparr> =
           Inr \<lparr>shape = [length r], data = map (\<lambda>v. v - g * (v - q)) r\<rparr>"
    unfolding tf_subtract_def using binary_op_same_shape [OF ws1 ws3, of "(-)"]
    by (simp add: map2_map_right)
qed

text \<open>The value \<open>LabelSmoothing.__call__\<close> returns for a scalar label.\<close>

lemma LabelSmoothing_call_scalar:
  assumes "0 \<le> self_targets self"
  shows "LabelSmoothing_call self x (tf_constant l) args =
     Inr (x,
          \<lparr>shape = [nat (self_targets self)],
           data = map (\<lambda>v. v - self_gamma self * (v - 1 / (real_of_int (self_targets self) + 1)))
                      (map (\<lambda>j. if int j = l then 1 else 0) [0..<nat (self_targets self)])\<rparr>,
          args)"
proof -
  define T where "T = self_targets self"
  define r :: "real list" where "r = map (\<lambda>j. if int j = l then 1 else 0) [0..<nat T]"
  define q where "q = 1 / (real_of_int T + 1)"
  have len: "length r = nat T" by (simp add: r_def)
  have one_hot: "tf_one_hot (tf_constant l) T = Inr \<lparr>shape = [length r], data = r\<rparr>"
    using assms tf_one_hot_scalar [of T l] by (simp add: T_def r_def)
  have cast: "tf_cast_float32 (IntTensor (tf_constant T)) = tf_constant (real_of_int T)"
    by (simp add: tf_constant_def)
  have denom: "tf_add (tf_constant (real_of_int T)) (tf_constant 1) = Inr (tf_constant (real_of_int T + 1))"
    by (simp add: tf_add_def binary_op_scalars)
  have floor_level: "tf_divide (tf_constant 1) (tf_constant (real_of_int T + 1)) = Inr (tf_constant q)"
    by (simp add: tf_divide_def binary_op_scalars q_def)
  have "LabelSmoothing_call self x (tf_constant l) args =
      Inr (x, \<lparr>shape = [length r], data = map (\<lambda>v. v - self_gamma self * (v - q)) r\<rparr>, args)"
    unfolding LabelSmoothing_call_def T_def [symmetric]
    by (simp only: one_hot cast denom floor_level smoothing_arithmetic sum.case)
  then show ?thesis
    unfolding len by (simp only: r_def q_def T_def)
qed

section \<open>The operations of Mixup\<close>

lemma expand_lam_eq: "expand_lam k t = \<lparr>shape = shape t @ replicate k 1, data = data t\<rparr>"
proof (induction k arbitrary: t)
  case 0
  show ?case by simp
next
  case (Suc k)
  show ?case
    by (simp add: Suc tf_expand_dims_last_def replicate_append_same)
qed

lemma broadcast_rev_ones:
  "broadcast_rev (replicate (length ys) 1 @ [n]) (ys @ [n]) = Some (ys @ [n])"
  by (induction ys) simp_all

lemma broadcast_shape_batch:
  "broadcast_shape (n # replicate (length ds) 1) (n # ds) = Some (n # ds)"
proof -
  have "broadcast_rev (replicate (length (rev ds)) 1 @ [n]) (rev ds @ [n]) = Some (rev ds @ [n])"
    by (rule broadcast_rev_ones)
  then show ?thesis by (simp add: broadcast_shape_def)
qed

lemma map2_ones: "length js = k \<Longrightarrow>
    map2 (\<lambda>d i. if d = 1 then 0 else i) (replicate k (1::nat)) js = replicate k (0::nat)"
  by (induction k arbitrary: js) (auto simp: length_Suc_conv)

lemma source_index_batch:
  assumes "b < n" and "length js = k"
  shows "source_index (n # replicate k 1) (b # js) = b # replicate k 0"
  using assms map2_ones [of js k] by (auto simp: source_index_def)

lemma offset_ones: "offset (replicate k 1) (replicate k 0) = 0"
  by (induction k) simp_all

lemma elem_batch_coefficient:
  "elem \<lparr>shape = n # replicate k 1, data = cs\<rparr> (b # replicate k 0) = cs ! b"
  using offset_ones [of k] by (simp add: elem_def)

lemma valid_index_Cons: "valid_index (n # ds) (b # js) = (b < n \<and> valid_index ds js)"
  by (simp add: valid_index_def)

lemma valid_index_length: "valid_index ds js \<Longrightarrow> length js = length ds"
  by (simp add: valid_index_def list_all2_lengthD)

lemma binary_op_result:
  assumes "broadcast_shape (shape a) (shape b) = Some s"
  shows "\<exists>c. binary_op f a b = Inr c \<and> shape c = s \<and> well_shaped c"
  using assms by (simp add: binary_op_def well_shaped_def length_indices)

text \<open>Multiplying a tensor by one coefficient per slice of its first axis.\<close>

lemma batch_scale:
  assumes "shape u = n # ds"
  shows "\<exists>r. tf_multiply \<lparr>shape = n # replicate (length ds) 1, data = cs\<rparr> u = Inr r \<and>
           shape r = n # ds \<and> well_shaped r \<and>
           (\<forall>b js. b < n \<and> valid_index ds js \<longrightarrow>
              elem r (b # js) = cs ! b * elem u (b # js))"
proof -
  let ?c = "\<lparr>shape = n # replicate (length ds) 1, data = cs\<rparr>"
  have "broadcast_shape (shape ?c) (shape u) = Some (n # ds)"
    using assms broadcast_shape_batch [of n ds] by simp
  from binary_op_result [OF this, of "(*)"]
  obtain r where r: "binary_op (*) ?c u = Inr r" "shape r = n # ds" "well_shaped r"
    by blast
  have "elem r (b # js) = cs ! b * elem u (b # js)" if "b < n" and v: "valid_index ds js" for b js
  proof -
    have valid: "valid_index (shape r) (b # js)"
      using that r(2) by (simp add: valid_index_Cons)
    have "source_index (n # replicate (length ds) 1) (b # js) = b # replicate (length ds) 0"
      using that(1) valid_index_length [OF v] by (rule source_index_batch)
    then have src_c: "source_index (shape ?c) (b # js) = b # replicate (length ds) 0"
      by simp
    have src_u: "source_index (shape u) (b # js) = b # js"
      using valid r(2) assms by (simp add: source_index_same)
    show ?thesis
      unfolding elem_binary_op [OF r(1) valid] src_c src_u
      by (simp only: elem_batch_coefficient)
  qed
  with r show ?thesis by (auto simp: tf_multiply_def)
qed

subsection \<open>Gathering slices\<close>

lemma concat_nth_block:
  assumes "\<forall>x \<in> set xs. length (f x) = r" and "b < length xs" and "j < r"
  shows "concat (map f xs) ! (b * r + j) = f (xs ! b) ! j"
  using assms
proof (induction xs arbitrary: b)
  case Nil
  then show ?case by simp
next
  case (Cons x xs)
  show ?case
  proof (cases b)
    case 0
    with Cons.prems show ?thesis by (simp add: nth_append)
  next
    case (Suc b')
    with Cons.prems have "concat (map f xs) ! (b' * r + j) = f (xs ! b') ! j"
      by (intro Cons.IH) simp_all
    moreover have "length (f x) = r" using Cons.prems by simp
    ultimately show ?thesis using Suc by (simp add: nth_append add.assoc)
  qed
qed

lemma slice_length:
  assumes "length d = n * r" and "i < n"
  shows "length (take r (drop (i * r) d)) = r"
proof -
  from assms(2) have "Suc i * r \<le> n * r" by (intro mult_le_mono1) simp
  then show ?thesis using assms(1) by simp
qed

lemma slice_nth:
  assumes "length d = n * r" and "i < n" and "j < r"
  shows "take r (drop (i * r) d) ! j = d ! (i * r + j)"
  using assms by simp

lemma tf_gather_slices:
  assumes "shape t = n # ds" and "well_shaped t" and "\<forall>i \<in> set sigma. i < n"
  shows "\<exists>g. tf_gather t \<lparr>shape = [length sigma], data = map int sigma\<rparr> = Inr g \<and>
           shape g = length sigma # ds \<and>
           (\<forall>b js. b < length sigma \<and> valid_index ds js \<longrightarrow>
              elem g (b # js) = elem t (sigma ! b # js))"
proof -
  let ?r = "prod_list ds"
  let ?f = "\<lambda>i. take ?r (drop (i * ?r) (data t))"
  let ?g = "\<lparr>shape = length sigma # ds, data = concat (map ?f sigma)\<rparr>"
  have len: "length (data t) = n * ?r"
    using assms(1,2) by (simp add: well_shaped_def)
  have in_range: "list_all (\<lambda>i. 0 \<le> i \<and> i < int n) (map int sigma)"
    using assms(3) by (simp add: list_all_iff)
  have gathered: "tf_gather t \<lparr>shape = [length sigma], data = map int sigma\<rparr> = Inr ?g"
    using assms(1) in_range by (simp add: tf_gather_def comp_def)
  have rows: "\<forall>i \<in> set sigma. length (?f i) = ?r"
    using assms(3) slice_length [OF len] by blast
  have "elem ?g (b # js) = elem t (sigma ! b # js)"
    if b: "b < length sigma" and v: "valid_index ds js" for b js
  proof -
    have j: "offset ds js < ?r" using v by (rule valid_offset)
    have sb: "sigma ! b < n" using assms(3) b by simp
    have "elem ?g (b # js) = concat (map ?f sigma) ! (b * ?r + offset ds js)"
      by (simp add: elem_def)
    also have "\<dots> = ?f (sigma ! b) ! offset ds js"
      using rows b j by (rule concat_nth_block)
    also have "\<dots> = data t ! (sigma ! b * ?r + offset ds js)"
      using len sb j by (rule slice_nth)
    also have "\<dots> = elem t (sigma ! b # js)"
      using assms(1) by (simp add: elem_def)
    finally show ?thesis .
  qed
  with gathered show ?thesis by (intro exI [of _ ?g]) simp
qed

text \<open>\<^verbatim>\<open>tf.random.shuffle(tf.range(batch_size))\<close> is the drawn permutation as a tensor.\<close>

lemma concat_singletons: "\<forall>x \<in> set xs. f x = [g x] \<Longrightarrow> concat (map f xs) = map g xs"
  by (induction xs) simp_all

lemma shuffled_range:
  assumes "\<forall>i \<in> set sigma. i < n"
  shows "tf_random_shuffle sigma (tf_range n) =
           Inr \<lparr>shape = [length sigma], data = map int sigma\<rparr>"
proof -
  have "\<forall>i \<in> set sigma. take (Suc 0) (drop i (map int [0..<n])) = [int i]"
  proof
    fix i assume i: "i \<in> set sigma"
    with assms have "i < length (map int [0..<n])" by simp
    then have "drop i (map int [0..<n]) = map int [0..<n] ! i # drop (Suc i) (map int [0..<n])"
      by (rule Cons_nth_drop_Suc [symmetric])
    moreover have "map int [0..<n] ! i = int i" using i assms by simp
    ultimately show "take (Suc 0) (drop i (map int [0..<n])) = [int i]" by simp
  qed
  then have "concat (map (\<lambda>i. take (Suc 0) (drop i (map int [0..<n]))) sigma) = map int sigma"
    by (rule concat_singletons)
  moreover have "list_all (\<lambda>i. 0 \<le> i \<and> i < int n) (map int sigma)"
    using assms by (simp add: list_all_iff)
  ultimately show ?thesis
    by (simp add: tf_random_shuffle_def tf_range_def tf_gather_def comp_def)
qed

subsection \<open>One element of the tuple\<close>

lemma tf_cast_float32_shape: "shape (tf_cast_float32 a) = shape_of a"
  by (cases a) simp_all

lemma tf_cast_float32_well_shaped: "well_shaped_tf a \<Longrightarrow> well_shaped (tf_cast_float32 a)"
  by (cases a) (simp_all add: well_shaped_def)

text \<open>What the loop body computes for a tensor whose first axis has the batch size.\<close>

lemma mix_arg_mixes:
  assumes shape_a: "shape_of a = n # ds" and ws: "well_shaped_tf a"
    and len: "length sigma = n" and range: "\<forall>i \<in> set sigma. i < n"
  shows "\<exists>m. mix_arg (beta_sample draws n) \<lparr>shape = [length sigma], data = map int sigma\<rparr> a = Inr m \<and>
           shape m = shape_of a \<and>
           (\<forall>b js. b < n \<and> valid_index (tl (shape_of a)) js \<longrightarrow>
              elem m (b # js) =
                draws b * elem (tf_cast_float32 a) (b # js) +
                (1 - draws b) * elem (tf_cast_float32 a) (sigma ! b # js))"
proof -
  let ?t = "tf_cast_float32 a"
  let ?lam = "map draws [0..<n]"
  let ?lam_exp = "\<lparr>shape = n # replicate (length ds) 1, data = ?lam\<rparr>"
  let ?rest = "\<lparr>shape = n # replicate (length ds) 1, data = map ((-) 1) ?lam\<rparr>"
  have shape_t: "shape ?t = n # ds" using shape_a by (simp add: tf_cast_float32_shape)
  have ws_t: "well_shaped ?t" using ws by (rule tf_cast_float32_well_shaped)
  have lam_exp: "expand_lam (length (shape ?t) - 1) (beta_sample draws n) = ?lam_exp"
    by (simp add: expand_lam_eq beta_sample_def shape_t)
  from batch_scale [OF shape_t, of ?lam]
  obtain kept where kept: "tf_multiply ?lam_exp ?t = Inr kept" "shape kept = n # ds"
      "well_shaped kept"
      "\<And>b js. b < n \<Longrightarrow> valid_index ds js \<Longrightarrow> elem kept (b # js) = ?lam ! b * elem ?t (b # js)"
    by blast
  have "well_shaped ?lam_exp" by (simp add: well_shaped_def)
  from binary_op_scalar_left [OF this, of "(-)" 1]
  have rest: "tf_subtract (tf_constant 1) ?lam_exp = Inr ?rest"
    by (simp add: tf_subtract_def)
  from tf_gather_slices [OF shape_t ws_t range]
  obtain partner where partner:
      "tf_gather ?t \<lparr>shape = [length sigma], data = map int sigma\<rparr> = Inr partner"
      "shape partner = n # ds"
      "\<And>b js. b < n \<Longrightarrow> valid_index ds js \<Longrightarrow> elem partner (b # js) = elem ?t (sigma ! b # js)"
    using len by auto
  from batch_scale [OF partner(2), of "map ((-) 1) ?lam"]
  obtain mixed where mixed: "tf_multiply ?rest partner = Inr mixed" "shape mixed = n # ds"
      "well_shaped mixed"
      "\<And>b js. b < n \<Longrightarrow> valid_index ds js \<Longrightarrow>
          elem mixed (b # js) = map ((-) 1) ?lam ! b * elem partner (b # js)"
    by blast
  have "shape kept = shape mixed" using kept(2) mixed(2) by simp
  from binary_op_same_shape [OF kept(3) mixed(3) this, of "(+)"]
  obtain out where out: "tf_add kept mixed = Inr out" "shape out = n # ds"
    using kept(2) by (simp add: tf_add_def)
  have call: "mix_arg (beta_sample draws n) \<lparr>shape = [length sigma], data = map int sigma\<rparr> a = Inr out"
    unfolding mix_arg_def Let_def lam_exp
    by (simp only: kept(1) rest partner(1) mixed(1) out(1) sum.case)
  have "elem out (b # js) =
      draws b * elem ?t (b # js) + (1 - draws b) * elem ?t (sigma ! b # js)"
    if b: "b < n" and v: "valid_index ds js" for b js
  proof -
    have valid: "valid_index (shape out) (b # js)"
      using that out(2) by (simp add: valid_index_Cons)
    have same: "source_index (n # ds) (b # js) = b # js"
      using valid out(2) by (simp add: source_index_same)
    from out(1) have "binary_op (+) kept mixed = Inr out" by (simp add: tf_add_def)
    from elem_binary_op [OF this valid]
    have "elem out (b # js) = elem kept (b # js) + elem mixed (b # js)"
      by (simp only: kept(2) mixed(2) same)
    also have "\<dots> = ?lam ! b * elem ?t (b # js) +
        map ((-) 1) ?lam ! b * elem ?t (sigma ! b # js)"
      by (simp only: kept(4) [OF b v] mixed(4) [OF b v] partner(3) [OF b v])
    also have "\<dots> = draws b * elem ?t (b # js) + (1 - draws b) * elem ?t (sigma ! b # js)"
      using b by simp
    finally show ?thesis .
  qed
  with call out(2) shape_a show ?thesis
    by (intro exI [of _ out]) simp
qed

subsection \<open>The loop over the tuple\<close>

lemma mix_loop_all:
  assumes "\<forall>a \<in> set args. \<exists>m. mix_arg lam_mu permutation a = Inr m \<and> Q a m"
  shows "\<exists>out. mix_loop lam_mu permutation args = Inr out \<and> list_all2 Q args out"
  using assms
proof (induction args)
  case Nil
  then show ?case by simp
next
  case (Cons a args)
  then obtain m where m: "mix_arg lam_mu permutation a = Inr m" "Q a m" by auto
  from Cons obtain ms where ms: "mix_loop lam_mu permutation args = Inr ms" "list_all2 Q args ms"
    by auto
  from m ms show ?case by simp
qed

section \<open>Properties of the transforms\<close>

subsection \<open>OneHotLabels\<close>

text \<open>
  C3. For a positive \<open>max_classes\<close> and a scalar label in \<open>[0, max_classes)\<close>,
  \<open>OneHotLabels\<close> returns the input and the extra arguments unchanged, and as label a vector
  of length \<open>max_classes\<close> that is 1 at the index \<open>label\<close>, 0 at every other index, and
  whose entries sum to 1.
\<close>

theorem OneHotLabels_call_one_hot:
  assumes "0 < max_classes" and "0 \<le> label" and "label < max_classes"
  shows "\<exists>self v. OneHotLabels_init max_classes = Inr self \<and>
           OneHotLabels_call self x (tf_constant label) args = Inr (x, v, args) \<and>
           shape v = [nat max_classes] \<and>
           length (data v) = nat max_classes \<and>
           data v ! nat label = 1 \<and>
           (\<forall>j < nat max_classes. j \<noteq> nat label \<longrightarrow> data v ! j = 0) \<and>
           sum_list (data v) = 1"
proof -
  let ?v = "\<lparr>shape = [nat max_classes],
              data = map (\<lambda>j. if int j = label then 1 else (0::real)) [0..<nat max_classes]\<rparr>"
  have call: "OneHotLabels_call \<lparr>self_max_classes = max_classes\<rparr> x (tf_constant label) args =
      Inr (x, ?v, args)"
    using assms(1) by (simp add: OneHotLabels_call_def tf_one_hot_scalar)
  have in_range: "nat label < nat max_classes" using assms by simp
  have hit: "data ?v ! nat label = 1" using in_range assms(2) by simp
  have miss: "\<forall>j < nat max_classes. j \<noteq> nat label \<longrightarrow> data ?v ! j = 0"
    using assms(2) by auto
  have total: "sum_list (data ?v) = 1"
    using in_range assms(2) by (simp add: one_hot_row_nat sum_list_one_hot_row)
  have "OneHotLabels_init max_classes = Inr \<lparr>self_max_classes = max_classes\<rparr>"
    by (simp add: OneHotLabels_init_def)
  with call hit miss total show ?thesis
    by (intro exI [of _ "\<lparr>self_max_classes = max_classes\<rparr>"] exI [of _ ?v]) simp
qed

theorem OneHotLabels_call_one_hot_witness:
  "\<exists>self v. OneHotLabels_init 3 = Inr self \<and>
           OneHotLabels_call self () (tf_constant 1) [True] = Inr ((), v, [True]) \<and>
           shape v = [nat 3] \<and>
           length (data v) = nat 3 \<and>
           data v ! nat 1 = 1 \<and>
           (\<forall>j < nat 3. j \<noteq> nat 1 \<longrightarrow> data v ! j = 0) \<and>
           sum_list (data v) = 1"
  by (rule OneHotLabels_call_one_hot) simp_all

subsection \<open>LabelSmoothing\<close>

text \<open>
  C2. For positive \<open>targets\<close> and a scalar label in \<open>[0, targets)\<close>, \<open>LabelSmoothing\<close>
  returns the input and the extra arguments unchanged, and as label the one-hot vector
  \<open>v\<close> of the label, of length \<open>targets\<close>, with every entry \<open>e\<close> replaced by
  \<open>e - gamma * (e - 1 / (targets + 1))\<close>, which is \<open>(1 - gamma) * e + gamma / (targets + 1)\<close>.
\<close>

theorem LabelSmoothing_call_smooths:
  assumes "0 < targets" and "0 \<le> label" and "label < targets"
  shows "\<exists>self v s. LabelSmoothing_init targets gamma = Inr self \<and>
           tf_one_hot (tf_constant label) targets = Inr v \<and>
           LabelSmoothing_call self x (tf_constant label) args = Inr (x, s, args) \<and>
           shape s = [nat targets] \<and>
           data v = map (\<lambda>j. if int j = label then 1 else 0) [0..<nat targets] \<and>
           data s = map (\<lambda>e. e - gamma * (e - 1 / (real_of_int targets + 1))) (data v) \<and>
           data s = map (\<lambda>e. (1 - gamma) * e + gamma / (real_of_int targets + 1)) (data v)"
proof -
  let ?self = "\<lparr>self_targets = targets, self_gamma = gamma\<rparr>"
  let ?row = "map (\<lambda>j. if int j = label then 1 else (0::real)) [0..<nat targets]"
  let ?v = "\<lparr>shape = [nat targets], data = ?row\<rparr>"
  let ?s = "\<lparr>shape = [nat targets],
              data = map (\<lambda>e. e - gamma * (e - 1 / (real_of_int targets + 1))) ?row\<rparr>"
  have init: "LabelSmoothing_init targets gamma = Inr ?self"
    by (simp add: LabelSmoothing_init_def)
  have one_hot: "tf_one_hot (tf_constant label) targets = Inr ?v"
    using assms(1) by (simp add: tf_one_hot_scalar)
  have call: "LabelSmoothing_call ?self x (tf_constant label) args = Inr (x, ?s, args)"
    using assms(1) LabelSmoothing_call_scalar [of ?self x label args] by simp
  have same: "(\<lambda>e. e - gamma * (e - 1 / (real_of_int targets + 1))) =
              (\<lambda>e. (1 - gamma) * e + gamma / (real_of_int targets + 1))"
    by (rule ext) (simp add: algebra_simps)
  have alt: "data ?s = map (\<lambda>e. (1 - gamma) * e + gamma / (real_of_int targets + 1)) (data ?v)"
    by (simp only: same [symmetric]) simp
  from init one_hot call alt show ?thesis
    by (intro exI [of _ ?self] exI [of _ ?v] exI [of _ ?s]) simp
qed

theorem LabelSmoothing_call_smooths_witness:
  "\<exists>self v s. LabelSmoothing_init 4 (1 / 5) = Inr self \<and>
           tf_one_hot (tf_constant 2) 4 = Inr v \<and>
           LabelSmoothing_call self () (tf_constant 2) [True] = Inr ((), s, [True]) \<and>
           shape s = [nat 4] \<and>
           data v = map (\<lambda>j. if int j = 2 then 1 else 0) [0..<nat 4] \<and>
           data s = map (\<lambda>e. e - (1 / 5) * (e - 1 / (real_of_int 4 + 1))) (data v) \<and>
           data s = map (\<lambda>e. (1 - (1 / 5)) * e + (1 / 5) / (real_of_int 4 + 1)) (data v)"
  by (rule LabelSmoothing_call_smooths) simp_all

text \<open>
  C6. With \<open>targets = 3\<close>, \<open>gamma = 0.1\<close> and \<open>label = 1\<close> the smoothed label is
  \<open>0.925 = 0.9 * 1 + 0.1 * (1 / 4)\<close> at index 1 and \<open>0.025 = 0.9 * 0 + 0.1 * (1 / 4)\<close> at the
  two other indices.
\<close>

theorem LabelSmoothing_example:
  "LabelSmoothing_init 3 (1 / 10) = Inr \<lparr>self_targets = 3, self_gamma = 1 / 10\<rparr> \<and>
   LabelSmoothing_call \<lparr>self_targets = 3, self_gamma = 1 / 10\<rparr> x (tf_constant 1) args =
     Inr (x, \<lparr>shape = [3], data = [25 / 1000, 925 / 1000, 25 / 1000]\<rparr>, args) \<and>
   (925 / 1000 :: real) = 9 / 10 * 1 + 1 / 10 * (1 / 4) \<and>
   (25 / 1000 :: real) = 9 / 10 * 0 + 1 / 10 * (1 / 4)"
proof -
  have three_indices: "[0..<3] = [0, 1, 2]"
    by (simp add: upt_conv_Cons)
  have "LabelSmoothing_call \<lparr>self_targets = 3, self_gamma = 1 / 10\<rparr> x (tf_constant 1) args =
     Inr (x, \<lparr>shape = [3], data = [25 / 1000, 925 / 1000, 25 / 1000]\<rparr>, args)"
    by (simp add: LabelSmoothing_call_scalar three_indices)
  then show ?thesis by (simp add: LabelSmoothing_init_def)
qed

text \<open>
  C10. For positive \<open>targets\<close> and a scalar label in \<open>[0, targets)\<close> the entries of the
  smoothed label sum to \<open>1 - gamma / (targets + 1)\<close>; they sum to 1 exactly when
  \<open>gamma = 0\<close>.
\<close>

theorem LabelSmoothing_sum:
  assumes "0 < targets" and "0 \<le> label" and "label < targets"
  shows "\<exists>self s. LabelSmoothing_init targets gamma = Inr self \<and>
           LabelSmoothing_call self x (tf_constant label) args = Inr (x, s, args) \<and>
           sum_list (data s) = 1 - gamma / (real_of_int targets + 1) \<and>
           (sum_list (data s) = 1) = (gamma = 0)"
proof -
  let ?self = "\<lparr>self_targets = targets, self_gamma = gamma\<rparr>"
  let ?q = "1 / (real_of_int targets + 1)"
  let ?row = "map (\<lambda>j. if int j = label then 1 else (0::real)) [0..<nat targets]"
  let ?s = "\<lparr>shape = [nat targets], data = map (\<lambda>e. e - gamma * (e - ?q)) ?row\<rparr>"
  have init: "LabelSmoothing_init targets gamma = Inr ?self"
    by (simp add: LabelSmoothing_init_def)
  have call: "LabelSmoothing_call ?self x (tf_constant label) args = Inr (x, ?s, args)"
    using assms(1) LabelSmoothing_call_scalar [of ?self x label args] by simp
  have row_sum: "sum_list ?row = 1"
    using assms by (simp add: one_hot_row_nat sum_list_one_hot_row)
  have pos: "0 < real_of_int targets + 1" using assms(1) by simp
  have "sum_list (data ?s) = (1 - gamma) * sum_list ?row + real (length ?row) * (gamma * ?q)"
    by (simp only: tensor.simps sum_list_smoothed)
  also have "\<dots> = (1 - gamma) + real_of_int targets * (gamma * ?q)"
    using assms(1) by (simp add: row_sum)
  also have "\<dots> = 1 - gamma / (real_of_int targets + 1)"
    using pos by (simp add: field_simps)
  finally have total: "sum_list (data ?s) = 1 - gamma / (real_of_int targets + 1)" .
  have "(sum_list (data ?s) = 1) = (gamma = 0)"
    unfolding total using pos by (auto simp: field_simps)
  with init call total show ?thesis
    by (intro exI [of _ ?self] exI [of _ ?s]) simp
qed

theorem LabelSmoothing_sum_witness:
  "\<exists>self s. LabelSmoothing_init 3 (1 / 10) = Inr self \<and>
           LabelSmoothing_call self () (tf_constant 1) [True] = Inr ((), s, [True]) \<and>
           sum_list (data s) = 1 - (1 / 10) / (real_of_int 3 + 1) \<and>
           (sum_list (data s) = 1) = ((1 / 10 :: real) = 0)"
  by (rule LabelSmoothing_sum) simp_all

subsection \<open>ChannelShuffle\<close>

text \<open>
  C7. Constructing a \<open>ChannelShuffle\<close> fails exactly when \<open>p\<close> lies outside \<open>[0, 1]\<close>;
  for every \<open>p\<close> in \<open>[0, 1]\<close> construction succeeds.
\<close>

theorem ChannelShuffle_init_fails_iff:
  "(\<exists>e. ChannelShuffle_init to_float16 p = Inl e) = (p < 0 \<or> 1 < p) \<and>
   (\<exists>self. ChannelShuffle_init to_float16 p = Inr self) = (0 \<le> p \<and> p \<le> 1)"
  by (auto simp: ChannelShuffle_init_def)

text \<open>
  C4 (what the code does instead). \<open>ChannelShuffle.__call__\<close> hands \<^verbatim>\<open>tf.cond\<close> two
  tensors where it takes two callables, so the call raises for every transform, every
  input and every outcome of the random draws; with \<open>p = 0\<close> and a 2 by 2 input the
  exception is \<^verbatim>\<open>TypeError\<close>, and no tuple is returned.
\<close>

theorem ChannelShuffle_call_raises:
  "ChannelShuffle_init to_float16 0 = Inr \<lparr>self_p = to_float16 0\<rparr> \<and>
   ChannelShuffle_call \<lparr>self_p = to_float16 0\<rparr> u [1, 0]
       \<lparr>shape = [2, 2], data = [1, 2, 3, 4 :: real]\<rparr> label args = Inl TypeError \<and>
   isl (ChannelShuffle_call self u' sigma x label' args')"
proof -
  have init: "ChannelShuffle_init to_float16 0 = Inr \<lparr>self_p = to_float16 0\<rparr>"
    by (simp add: ChannelShuffle_init_def)
  have shuffled: "tf_random_shuffle [1, 0] \<lparr>shape = [2, 2], data = [1, 2, 3, 4 :: real]\<rparr> =
      Inr \<lparr>shape = [2, 2], data = [3, 4, 1, 2]\<rparr>"
    by (simp add: tf_random_shuffle_def tf_gather_def)
  have concrete: "ChannelShuffle_call \<lparr>self_p = to_float16 0\<rparr> u [1, 0]
       \<lparr>shape = [2, 2], data = [1, 2, 3, 4 :: real]\<rparr> label args = Inl TypeError"
    using shuffled by (simp add: ChannelShuffle_call_def)
  have always: "isl (ChannelShuffle_call self u' sigma x label' args')"
    by (cases "tf_random_shuffle sigma x") (simp_all add: ChannelShuffle_call_def)
  from init concrete always show ?thesis by simp
qed

subsection \<open>Construction of OneHotLabels and LabelSmoothing\<close>

text \<open>
  C8, as stated, fails: a class count of 0 is accepted by both constructors.
\<close>

theorem class_count_unchecked_counterexample:
  "\<not> isl (OneHotLabels_init 0) \<and> \<not> isl (LabelSmoothing_init 0 (1 / 10))"
  by (simp add: OneHotLabels_init_def LabelSmoothing_init_def)

text \<open>
  C8, amended. Constructing \<open>OneHotLabels\<close> and \<open>LabelSmoothing\<close> succeeds for every class
  count, the non-positive ones included, and stores it unchanged. A negative class count is
  refused only when the transform is called, by \<^verbatim>\<open>tf.one_hot\<close>.
\<close>

theorem class_count_unchecked:
  "OneHotLabels_init max_classes = Inr \<lparr>self_max_classes = max_classes\<rparr> \<and>
   LabelSmoothing_init targets gamma = Inr \<lparr>self_targets = targets, self_gamma = gamma\<rparr> \<and>
   (max_classes < 0 \<longrightarrow>
      OneHotLabels_call \<lparr>self_max_classes = max_classes\<rparr> x label args =
        Inl InvalidArgumentError) \<and>
   (targets < 0 \<longrightarrow>
      LabelSmoothing_call \<lparr>self_targets = targets, self_gamma = gamma\<rparr> x label args =
        Inl InvalidArgumentError)"
  by (simp add: OneHotLabels_init_def LabelSmoothing_init_def OneHotLabels_call_def
      LabelSmoothing_call_def tf_one_hot_def)

theorem class_count_unchecked_witness:
  "OneHotLabels_init (- 1) = Inr \<lparr>self_max_classes = - 1\<rparr> \<and>
   LabelSmoothing_init (- 2) (1 / 10) = Inr \<lparr>self_targets = - 2, self_gamma = 1 / 10\<rparr> \<and>
   OneHotLabels_call \<lparr>self_max_classes = - 1\<rparr> () (tf_constant 0) [True] =
     Inl InvalidArgumentError \<and>
   LabelSmoothing_call \<lparr>self_targets = - 2, self_gamma = 1 / 10\<rparr> () (tf_constant 0) [True] =
     Inl InvalidArgumentError"
  using class_count_unchecked [of "- 1" "- 2" "1 / 10" "()" "tf_constant 0" "[True]"]
  by simp

subsection \<open>DummyTransform, ICATransform, EATransform\<close>

text \<open>
  C9. An \<open>ICATransform\<close> and an \<open>EATransform\<close> constructed with the same matrix \<open>M\<close>
  return the same result on every call: the product of \<open>M\<close>, cast to floating point, with
  the input, and the label, as a tuple of two elements (or the error of the product).
\<close>

theorem ICATransform_EATransform_equal:
  "ICATransform_init M = Inr \<lparr>self_input = M\<rparr> \<and>
   EATransform_init M = Inr \<lparr>self_ref_matrix = M\<rparr> \<and>
   ICATransform_call \<lparr>self_input = M\<rparr> x label args =
     EATransform_call \<lparr>self_ref_matrix = M\<rparr> x label args \<and>
   ICATransform_call \<lparr>self_input = M\<rparr> x label args =
     map_sum id (\<lambda>y. (y, label, [])) (tf_matmul (tf_cast_float32 M) x)"
  by (simp add: ICATransform_init_def EATransform_init_def ICATransform_call_def
      EATransform_call_def split: sum.split)

text \<open>
  C5 (what the code does instead). Called with one extra argument, that is with a tuple of
  three elements, \<open>DummyTransform\<close>, \<open>ICATransform\<close> and \<open>EATransform\<close> return a tuple
  of two elements, while \<open>OneHotLabels\<close> and \<open>LabelSmoothing\<close> return three.
\<close>

theorem extra_arguments_dropped:
  "arity (tf_constant (3::real), label, [extra]) = 3 \<and>
   map_sum id arity (DummyTransform_call (tf_constant (3::real)) label [extra]) = Inr 2 \<and>
   map_sum id arity
     (ICATransform_call \<lparr>self_input = IntTensor \<lparr>shape = [1, 1], data = [2]\<rparr>\<rparr>
        \<lparr>shape = [1, 1], data = [3]\<rparr> label [extra]) = Inr 2 \<and>
   map_sum id arity
     (EATransform_call \<lparr>self_ref_matrix = IntTensor \<lparr>shape = [1, 1], data = [2]\<rparr>\<rparr>
        \<lparr>shape = [1, 1], data = [3]\<rparr> label [extra]) = Inr 2 \<and>
   map_sum id arity
     (OneHotLabels_call \<lparr>self_max_classes = 2\<rparr> (tf_constant (3::real)) (tf_constant 1) [extra])
     = Inr 3 \<and>
   map_sum id arity
     (LabelSmoothing_call \<lparr>self_targets = 2, self_gamma = 1 / 10\<rparr> (tf_constant (3::real))
        (tf_constant 1) [extra]) = Inr 3"
proof -
  have dummy: "DummyTransform_call (tf_constant (3::real)) label [extra] =
      Inr (tf_constant 6, label, [])"
    by (simp add: DummyTransform_call_def tf_multiply_def binary_op_scalars)
  have product: "tf_matmul \<lparr>shape = [1, 1], data = [2]\<rparr> \<lparr>shape = [1, 1], data = [3]\<rparr> =
      Inr \<lparr>shape = [1, 1], data = [6]\<rparr>"
    by (simp add: tf_matmul_def broadcast_shape_def source_index_def elem_def Let_def)
  have ica: "ICATransform_call \<lparr>self_input = IntTensor \<lparr>shape = [1, 1], data = [2]\<rparr>\<rparr>
        \<lparr>shape = [1, 1], data = [3]\<rparr> label [extra] =
      Inr (\<lparr>shape = [1, 1], data = [6]\<rparr>, label, [])"
    using product by (simp add: ICATransform_call_def)
  have ea: "EATransform_call \<lparr>self_ref_matrix = IntTensor \<lparr>shape = [1, 1], data = [2]\<rparr>\<rparr>
        \<lparr>shape = [1, 1], data = [3]\<rparr> label [extra] =
      Inr (\<lparr>shape = [1, 1], data = [6]\<rparr>, label, [])"
    using product by (simp add: EATransform_call_def)
  have one_hot: "map_sum id arity
     (OneHotLabels_call \<lparr>self_max_classes = 2\<rparr> (tf_constant (3::real)) (tf_constant 1) [extra])
     = Inr 3"
    by (simp add: OneHotLabels_call_def tf_one_hot_scalar)
  have smoothing: "map_sum id arity
     (LabelSmoothing_call \<lparr>self_targets = 2, self_gamma = 1 / 10\<rparr> (tf_constant (3::real))
        (tf_constant 1) [extra]) = Inr 3"
    by (simp add: LabelSmoothing_call_scalar)
  from dummy ica ea one_hot smoothing show ?thesis by simp
qed

subsection \<open>Mixup\<close>

text \<open>
  C1. Let the tuple \<open>args\<close> be non-empty (its first tensor gives the batch size \<open>n\<close>), let
  every tensor in it have \<open>n\<close> as its first dimension, and let \<open>sigma\<close> be the permutation
  of \<open>[0, n)\<close> drawn for the call and \<open>draws b\<close> the Beta coefficient drawn for example
  \<open>b\<close>. Then \<open>Mixup\<close> returns a tuple of the same length, and output \<open>i\<close> has the shape
  of input \<open>i\<close> and, at every position \<open>b # js\<close>, the value
  \<open>lam b * t (b # js) + (1 - lam b) * t (sigma b # js)\<close> for \<open>t\<close> the input cast to floating
  point: the coefficient is broadcast over the trailing axes and the partner is gathered
  along the batch axis.
\<close>

theorem Mixup_call_mixes:
  assumes "args \<noteq> []"
    and "\<forall>a \<in> set args. well_shaped_tf a \<and> (\<exists>ds. shape_of a = n # ds)"
    and "distinct sigma" and "set sigma = {0..<n}"
  shows "\<exists>out. Mixup_call self draws sigma args = Inr out \<and>
           length out = length args \<and>
           (\<forall>i < length args.
              shape (out ! i) = shape_of (args ! i) \<and>
              (\<forall>b js. b < n \<and> valid_index (tl (shape_of (args ! i))) js \<longrightarrow>
                 elem (out ! i) (b # js) =
                   draws b * elem (tf_cast_float32 (args ! i)) (b # js) +
                   (1 - draws b) * elem (tf_cast_float32 (args ! i)) (sigma ! b # js)))"
proof -
  let ?Q = "\<lambda>a m. shape m = shape_of a \<and>
           (\<forall>b js. b < n \<and> valid_index (tl (shape_of a)) js \<longrightarrow>
              elem m (b # js) =
                draws b * elem (tf_cast_float32 a) (b # js) +
                (1 - draws b) * elem (tf_cast_float32 a) (sigma ! b # js))"
  let ?perm = "\<lparr>shape = [length sigma], data = map int sigma\<rparr>"
  have len: "length sigma = n"
    using assms(3,4) distinct_card [of sigma] by simp
  have range: "\<forall>i \<in> set sigma. i < n"
    using assms(4) by simp
  have "\<forall>a \<in> set args. \<exists>m. mix_arg (beta_sample draws n) ?perm a = Inr m \<and> ?Q a m"
  proof
    fix a assume "a \<in> set args"
    with assms(2) obtain ds where "shape_of a = n # ds" and "well_shaped_tf a" by blast
    then show "\<exists>m. mix_arg (beta_sample draws n) ?perm a = Inr m \<and> ?Q a m"
      using len range by (rule mix_arg_mixes)
  qed
  from mix_loop_all [of args "beta_sample draws n" ?perm ?Q, OF this]
  obtain out where out: "mix_loop (beta_sample draws n) ?perm args = Inr out"
      "list_all2 ?Q args out"
    by blast
  from assms(1) obtain first others where args: "args = first # others"
    by (cases args) auto
  with assms(2) obtain ds where first: "shape_of first = n # ds" by auto
  have call: "Mixup_call self draws sigma args = Inr out"
    using out(1) by (simp add: Mixup_call_def args first shuffled_range [OF range])
  have length: "length out = length args"
    using out(2) by (simp add: list_all2_lengthD)
  have "?Q (args ! i) (out ! i)" if "i < length args" for i
    using out(2) that by (rule list_all2_nthD)
  with call length show ?thesis by (intro exI [of _ out]) simp
qed

theorem Mixup_call_mixes_witness:
  "\<exists>out. Mixup_call \<lparr>self_rate = 1\<rparr> (\<lambda>i. 1 / 4) [1, 0]
            [FloatTensor \<lparr>shape = [2, 2], data = [1, 2, 3, 4]\<rparr>,
             IntTensor \<lparr>shape = [2], data = [0, 1]\<rparr>] = Inr out \<and>
          length out = 2 \<and>
          shape (out ! 0) = [2, 2] \<and>
          elem (out ! 0) [0, 1] = 1 / 4 * 2 + (1 - 1 / 4) * 4 \<and>
          elem (out ! 1) [1] = 1 / 4 * 1 + (1 - 1 / 4) * 0"
proof -
  let ?args = "[FloatTensor \<lparr>shape = [2, 2], data = [1, 2, 3, 4]\<rparr>,
                IntTensor \<lparr>shape = [2], data = [0, 1]\<rparr>]"
  have h1: "?args \<noteq> []" by simp
  have h2: "\<forall>a \<in> set ?args. well_shaped_tf a \<and> (\<exists>ds. shape_of a = 2 # ds)"
    by (simp add: well_shaped_def)
  have h3: "distinct [1, 0 :: nat]" by simp
  have h4: "set [1, 0 :: nat] = {0..<2}" by auto
  from Mixup_call_mixes [OF h1 h2 h3 h4, of "\<lparr>self_rate = 1\<rparr>" "\<lambda>i. 1 / 4"]
  obtain out where call: "Mixup_call \<lparr>self_rate = 1\<rparr> (\<lambda>i. 1 / 4) [1, 0] ?args = Inr out"
    and length: "length out = length ?args"
    and each: "\<And>i. i < length ?args \<Longrightarrow>
          shape (out ! i) = shape_of (?args ! i) \<and>
          (\<forall>b js. b < 2 \<and> valid_index (tl (shape_of (?args ! i))) js \<longrightarrow>
             elem (out ! i) (b # js) =
               1 / 4 * elem (tf_cast_float32 (?args ! i)) (b # js) +
               (1 - 1 / 4) * elem (tf_cast_float32 (?args ! i)) ([1, 0] ! b # js))"
    by blast
  have i0: "0 < length ?args" and i1: "1 < length ?args" by simp_all
  have p0: "0 < (2::nat) \<and> valid_index (tl (shape_of (?args ! 0))) [1]"
    by (simp add: valid_index_def)
  have p1: "1 < (2::nat) \<and> valid_index (tl (shape_of (?args ! 1))) []"
    by (simp add: valid_index_def)
  have c0: "elem (tf_cast_float32 (?args ! 0)) [0, 1] = 2"
      "elem (tf_cast_float32 (?args ! 0)) [[1, 0] ! 0, 1] = 4"
    by (simp_all add: elem_def)
  have c1: "elem (tf_cast_float32 (?args ! 1)) [1] = 1"
      "elem (tf_cast_float32 (?args ! 1)) [[1, 0] ! 1] = 0"
    by (simp_all add: elem_def)
  have shape0: "shape (out ! 0) = [2, 2]"
    using each [OF i0, THEN conjunct1] by simp
  have first: "elem (out ! 0) [0, 1] = 1 / 4 * 2 + (1 - 1 / 4) * 4"
    using each [OF i0, THEN conjunct2, rule_format, OF p0] by (simp only: c0)
  have second: "elem (out ! 1) [1] = 1 / 4 * 1 + (1 - 1 / 4) * 0"
    using each [OF i1, THEN conjunct2, rule_format, OF p1] by (simp only: c1)
  from call length shape0 first second show ?thesis by simp
qed

end
